theory Spec2Isabelle
  imports Main "HOL-Library.AList"
begin

section \<open>JavaScript values that may be undefined\<close>

text \<open>
  A value of a TypeScript type \<open>T\<close> can be \<open>undefined\<close> at run time (an optional
  field, a missing array slot, the state Redux passes on initialisation). Where the source
  tests for that, the model uses \<open>'a js\<close>: \<open>Undefined\<close> is the JavaScript value
  \<open>undefined\<close>, \<open>Defined x\<close> any other value.
\<close>

datatype 'a js = Undefined | Defined 'a

section \<open>Actions and reducers (index.ts, lines 13-172)\<close>

text \<open>
  \<open>interface Action<T, P> { type: T; payload: P }\<close>. An action is an object, so it is
  truthy in every JavaScript test.
\<close>

record 'p Action =
  type :: string
  payload :: 'p

text \<open>
  \<open>interface ActionDefinition<S, T, P>\<close>: the tag and the case's reduce function. The
  members \<open>payloadType\<close> and \<open>stateType\<close> are \<open>undefined\<close> at run time and carry
  types only, so the record leaves them out.
\<close>

record ('s, 'p) ActionDefinition =
  def_type :: string
  reduce :: "'s \<Rightarrow> 'p \<Rightarrow> 's"

text \<open>\<open>action(type, reduce)\<close> and the creator function \<open>create(payload)\<close> it returns.\<close>

definition action :: "string \<Rightarrow> ('s \<Rightarrow> 'p \<Rightarrow> 's) \<Rightarrow> ('s, 'p) ActionDefinition" where
  "action ty red = \<lparr> def_type = ty, reduce = red \<rparr>"

definition create :: "('s, 'p) ActionDefinition \<Rightarrow> 'p \<Rightarrow> 'p Action" where
  "create d p = \<lparr> type = def_type d, payload = p \<rparr>"

text \<open>
  \<open>interface MinimalReducer<S, A>\<close>: a callable with an \<open>empty\<close> member. A
  \<open>Reducer<S, A>\<close> has the same two run-time members, and the methods \<open>action\<close>
  (below, \<open>action_m\<close>) and \<open>store\<close>.
\<close>

record ('s, 'a) MinimalReducer =
  call :: "'s \<Rightarrow> 'a \<Rightarrow> 's"
  empty :: 's

text \<open>
  \<open>isAction(obj, type) = obj && obj.type === type\<close>; \<open>obj\<close> is an action object,
  hence truthy, and the test is the comparison of the tags.
\<close>

definition isAction :: "'p Action \<Rightarrow> string \<Rightarrow> bool" where
  "isAction obj ty = (type obj = ty)"

text \<open>
  \<open>chain(headType, empty, head, rest)\<close>: the inner function \<open>reduce\<close> is the callable
  of the result.
\<close>

definition chain ::
  "string \<Rightarrow> 's \<Rightarrow> ('s \<Rightarrow> 'p \<Rightarrow> 's) \<Rightarrow> ('s \<Rightarrow> 'p Action \<Rightarrow> 's) \<Rightarrow> ('s, 'p Action) MinimalReducer" where
  "chain headType empty0 head rest =
     \<lparr> call = (\<lambda>state act.
          if isAction act headType then head state (payload act) else rest state act),
       empty = empty0 \<rparr>"

text \<open>The method \<open>action(def)\<close> of a reducer returned by \<open>chain\<close>.\<close>

definition action_m ::
  "('s, 'p Action) MinimalReducer \<Rightarrow> ('s, 'p) ActionDefinition \<Rightarrow> ('s, 'p Action) MinimalReducer" where
  "action_m r d = chain (def_type d) (empty r) (reduce d) (call r)"

text \<open>
  \<open>reducer(empty).action(def)\<close>: the starter object has the single method \<open>action\<close>,
  which chains the first case in front of the pass-through
  \<open>s => s === undefined ? empty : s\<close>. The state may be \<open>undefined\<close> here.
\<close>

definition reducer ::
  "'s js \<Rightarrow> ('s js, 'p) ActionDefinition \<Rightarrow> ('s js, 'p Action) MinimalReducer" where
  "reducer empty0 d =
     chain (def_type d) empty0 (reduce d) (\<lambda>s _. if s = Undefined then empty0 else s)"

text \<open>
  A chain built by repeated registration:
  \<open>reducer(empty).action(d).action(d1)...action(dn)\<close> for \<open>ds = [d1, ..., dn]\<close>.
\<close>

definition registered ::
  "'s js \<Rightarrow> ('s js, 'p) ActionDefinition \<Rightarrow> ('s js, 'p) ActionDefinition list
     \<Rightarrow> ('s js, 'p Action) MinimalReducer" where
  "registered empty0 d ds = foldl action_m (reducer empty0 d) ds"

section \<open>Stores and cursors (index.ts, lines 174-276)\<close>

text \<open>
  \<open>interface Store<S, A>\<close> is the external, mutable store. Its hidden state (current
  state, reducer, listeners) is a value of type \<open>'w\<close> that every call threads through:
  \<open>getState\<close> reads it, \<open>dispatch\<close> replaces it (the action it returns is not used by
  the cursors).
\<close>

record ('s, 'a, 'w) Store =
  getState :: "'w \<Rightarrow> 's"
  dispatch :: "'a \<Rightarrow> 'w \<Rightarrow> 'w"

text \<open>
  \<open>interface Cursor<S, A>\<close>: the member \<open>state\<close> and the callable. Calling a cursor
  changes the store and returns a new cursor, so \<open>send c a w\<close> is the pair of the
  store after the call and the cursor returned. \<open>valueOf()\<close> returns \<open>state\<close>.
\<close>

codatatype ('s, 'a, 'w) Cursor =
  Cursor (state: 's) (send: "'a \<Rightarrow> 'w \<Rightarrow> 'w \<times> ('s, 'a, 'w) Cursor")

text \<open>
  \<open>snapshot(store)\<close>, called when the store is \<open>w\<close>: \<open>state = store.getState()\<close>;
  \<open>dispatch(action)\<close> is \<open>store.dispatch(action); return snapshot(store)\<close>.
\<close>

primcorec snapshot :: "('s, 'a, 'w) Store \<Rightarrow> 'w \<Rightarrow> ('s, 'a, 'w) Cursor" where
  "snapshot store w = Cursor (getState store w)
     (\<lambda>act w1. let w2 = dispatch store act w1 in (w2, snapshot store w2))"

text \<open>
  \<open>items(fetch, update)\<close> applied to \<open>(outer, key)\<close>: \<open>state = fetch(outer.state, key)\<close>;
  \<open>dispatch(innerAction)\<close> is
  \<open>items(fetch, update)(outer(update(key, innerAction)), key)\<close>.
\<close>

primcorec items ::
  "('os \<Rightarrow> 'k \<Rightarrow> 'is) \<Rightarrow> ('k \<Rightarrow> 'ia \<Rightarrow> 'oa) \<Rightarrow> ('os, 'oa, 'w) Cursor \<Rightarrow> 'k
     \<Rightarrow> ('is, 'ia, 'w) Cursor" where
  "items fetch upd outer k = Cursor (fetch (state outer) k)
     (\<lambda>innerAction w.
        case send outer (upd k innerAction) w of
          (w1, outer1) \<Rightarrow> (w1, items fetch upd outer1 k))"

text \<open>\<open>item(fetch, update)\<close>: \<open>items\<close> with the key \<open>undefined\<close>.\<close>

definition item ::
  "('os \<Rightarrow> 'is) \<Rightarrow> ('ia \<Rightarrow> 'oa) \<Rightarrow> ('os, 'oa, 'w) Cursor \<Rightarrow> ('is, 'ia, 'w) Cursor" where
  "item fetch upd outer = items (\<lambda>s (_::unit). fetch s) (\<lambda>_ a. upd a) outer ()"

section \<open>Collections (index.ts, lines 278-508)\<close>

text \<open>
  \<open>interface Update<K, U> { key: K; update?: U; remove?: boolean }\<close>. The inner action
  \<open>update\<close> is an action object when it is present.
\<close>

record ('k, 'u) Update =
  key :: 'k
  update :: "'u js"
  remove :: "bool js"

text \<open>\<open>interface CollectionOperations<C, K, I>\<close>.\<close>

record ('c, 'k, 'i) CollectionOperations =
  get_op :: "'c \<Rightarrow> 'k \<Rightarrow> 'i \<Rightarrow> 'i"
  set_op :: "'c \<Rightarrow> 'k \<Rightarrow> 'i \<Rightarrow> 'c"
  remove_op :: "'c \<Rightarrow> 'k \<Rightarrow> 'i \<Rightarrow> 'c"

text \<open>The action creators \<open>add\<close>, \<open>remove\<close> and \<open>update\<close> of \<open>collection(type, ...)\<close>.\<close>

definition add :: "string \<Rightarrow> 'k \<Rightarrow> ('k, 'u) Update Action" where
  "add ty k = \<lparr> type = ty, payload = \<lparr> key = k, update = Undefined, remove = Undefined \<rparr> \<rparr>"

definition remove_a :: "string \<Rightarrow> 'k \<Rightarrow> ('k, 'u) Update Action" where
  "remove_a ty k =
     \<lparr> type = ty, payload = \<lparr> key = k, update = Undefined, remove = Defined True \<rparr> \<rparr>"

definition update_a :: "string \<Rightarrow> 'k \<Rightarrow> 'u \<Rightarrow> ('k, 'u) Update Action" where
  "update_a ty k u =
     \<lparr> type = ty, payload = \<lparr> key = k, update = Defined u, remove = Undefined \<rparr> \<rparr>"

text \<open>
  The function \<open>reduce(state, {key, update, remove})\<close> inside \<open>collection\<close>, closed over
  \<open>reducer\<close>, \<open>operations\<close>, \<open>get\<close> and \<open>ensuredSet\<close>. \<open>remove ? ... : ...\<close> takes
  the first branch when \<open>remove\<close> is \<open>true\<close> (\<open>false\<close> and \<open>undefined\<close> are falsy);
  \<open>update ? ... : ...\<close> takes the first branch when the action object is present.
\<close>

definition collection_reduce ::
  "('i, 'p Action) MinimalReducer \<Rightarrow> ('c, 'k, 'i) CollectionOperations \<Rightarrow> ('s \<Rightarrow> 'c)
     \<Rightarrow> ('s \<Rightarrow> 'c \<Rightarrow> 's) \<Rightarrow> 's \<Rightarrow> ('k, 'p Action) Update \<Rightarrow> 's" where
  "collection_reduce r operations get ensuredSet st p =
     (let collection = get st;
          val = get_op operations collection (key p) (empty r)
      in ensuredSet st
           (if remove p = Defined True
            then remove_op operations collection (key p) (empty r)
            else set_op operations collection (key p)
                   (case update p of Defined u \<Rightarrow> call r val u | Undefined \<Rightarrow> val)))"

section \<open>Objects, maps and arrays as collections (index.ts, lines 298-357, 617-642)\<close>

text \<open>
  A plain object is the list of its own enumerable properties, in the order of
  \<open>Object.keys\<close>, each key once: \<open>o[k] = v\<close> is \<open>AList.update k v\<close> (an existing key
  keeps its place, a new one goes last), \<open>delete o[k]\<close> is \<open>AList.delete k\<close>, and
  \<open>map_of o k\<close> is \<open>None\<close> exactly when \<open>hasOwnProperty\<close> is false.
\<close>

type_synonym ('k, 'v) object = "('k \<times> 'v) list"

text \<open>
  \<open>assign(target, ...sources)\<close>. The inner loop
  \<open>for (const key of Object.keys(source)) target[key] = source[key]\<close> runs over the
  properties of one source; the outer loop runs over the sources.
\<close>

fun assign_source :: "('k, 'v) object \<Rightarrow> ('k, 'v) object \<Rightarrow> ('k, 'v) object" where
  "assign_source target [] = target"
| "assign_source target ((k, v) # rest) = assign_source (AList.update k v target) rest"

fun assign :: "('k, 'v) object \<Rightarrow> ('k, 'v) object list \<Rightarrow> ('k, 'v) object" where
  "assign target [] = target"
| "assign target (source # sources) = assign (assign_source target source) sources"

text \<open>\<open>amend(o1, o2) = assign({}, o1, o2)\<close>.\<close>

definition amend :: "('k, 'v) object \<Rightarrow> ('k, 'v) object \<Rightarrow> ('k, 'v) object" where
  "amend o1 o2 = assign [] [o1, o2]"

text \<open>
  \<open>o.k\<close>, the read of a property: \<open>undefined\<close> when the object has no such
  property. A getter \<open>s => s.k\<close> is \<open>get_prop k\<close>.
\<close>

definition get_prop :: "'k \<Rightarrow> ('k, 'v js) object \<Rightarrow> 'v js" where
  "get_prop k ob = (case map_of ob k of Some v \<Rightarrow> v | None \<Rightarrow> Undefined)"

text \<open>
  \<open>builtInOperations\<close>, shared by \<open>stringMapOperations\<close> and
  \<open>numberMapOperations\<close>. Its \<open>remove\<close> takes no empty item.
\<close>

definition builtInOperations :: "(('k, 'i) object, 'k, 'i) CollectionOperations" where
  "builtInOperations =
     \<lparr> get_op = (\<lambda>items k emptyItem.
          case map_of items k of Some v \<Rightarrow> v | None \<Rightarrow> emptyItem),
       set_op = (\<lambda>items k item. amend items [(k, item)]),
       remove_op = (\<lambda>items k _. let items = assign [] [items] in AList.delete k items) \<rparr>"

definition stringMapOperations :: "((string, 'i) object, string, 'i) CollectionOperations" where
  "stringMapOperations = builtInOperations"

definition numberMapOperations :: "((int, 'i) object, int, 'i) CollectionOperations" where
  "numberMapOperations = builtInOperations"

text \<open>
  \<open>immutableMapOperations()\<close>. The \<open>Map\<close> of the library Immutable is a finite map
  compared by its entries: \<open>has\<close>, \<open>get\<close>, \<open>set\<close> and \<open>remove\<close> are \<open>m k \<noteq> None\<close>,
  \<open>m k\<close>, \<open>m(k \<mapsto> v)\<close> and \<open>m(k := None)\<close>.
\<close>

definition immutableMapOperations :: "('k \<rightharpoonup> 'i, 'k, 'i) CollectionOperations" where
  "immutableMapOperations =
     \<lparr> get_op = (\<lambda>items k emptyItem.
          case items k of Some v \<Rightarrow> v | None \<Rightarrow> emptyItem),
       set_op = (\<lambda>items k item. items(k \<mapsto> item)),
       remove_op = (\<lambda>items k emptyItem. items(k := None)) \<rparr>"

text \<open>
  An array is the list of its slots; a slot that is a hole or holds \<open>undefined\<close> is
  \<open>Undefined\<close> (\<open>items[key]\<close> reads both as \<open>undefined\<close>). A key is an array index, a
  natural number. \<open>index\<close> is \<open>items[key]\<close>, \<open>slice\<close> is \<open>items.slice(start)\<close>,
  \<open>splice\<close> is \<open>items.splice(start, deleteCount, ...new)\<close> (the array it leaves, with
  the start and the count clamped as the language defines), \<open>assign_index\<close> is
  \<open>items[key] = v\<close>, which grows the array when the index is not below its length.
\<close>

definition index :: "'i js list \<Rightarrow> nat \<Rightarrow> 'i js" where
  "index xs i = (if i < length xs then xs ! i else Undefined)"

definition slice :: "'a list \<Rightarrow> nat \<Rightarrow> 'a list" where
  "slice xs start = drop start xs"

definition splice :: "'a list \<Rightarrow> nat \<Rightarrow> nat \<Rightarrow> 'a list \<Rightarrow> 'a list" where
  "splice xs start deleteCount new =
     (let actualStart = min start (length xs);
          actualDeleteCount = min deleteCount (length xs - actualStart)
      in take actualStart xs @ new @ drop (actualStart + actualDeleteCount) xs)"

definition assign_index :: "'i js list \<Rightarrow> nat \<Rightarrow> 'i js \<Rightarrow> 'i js list" where
  "assign_index xs i v =
     (if i < length xs then xs[i := v]
      else xs @ replicate (i - length xs) Undefined @ [v])"

definition arrayOperations :: "('i js list, nat, 'i js) CollectionOperations" where
  "arrayOperations =
     \<lparr> get_op = (\<lambda>items k emptyItem.
          let r = index items k in if r = Undefined then emptyItem else r),
       set_op = (\<lambda>items k item. let items = slice items 0 in splice items k 1 [item]),
       remove_op = (\<lambda>items k emptyItem.
          let items = slice items 0 in assign_index items k emptyItem) \<rparr>"

section \<open>The synthesized setter (index.ts, lines 644-673)\<close>

text \<open>
  The two regular expressions of the source are built from single characters, the class
  \<open>\s\<close> and the class \<open>[a-z]\<close>, each taken once, optionally (\<open>?\<close>), any number of
  times (\<open>*\<close>) or at least once (\<open>+\<close>), some of them inside capture parentheses.
  Both carry the flag \<open>i\<close>: a character matches a literal when their upper-case forms
  agree, and \<open>[a-z]\<close> matches the ASCII letters of both cases. A source text is a list
  of characters with codes below 256. \<open>canonicalize\<close> is the upper-case form of an
  ASCII letter and leaves every other character as it is: the literals of the two
  expressions are ASCII, and no character outside ASCII is canonicalized to an ASCII one.
\<close>

datatype atom = Lit char | Space | Letter

datatype quant = One | Opt | Star | Plus

datatype node = Plain quant atom | Group quant atom

definition is_letter :: "char \<Rightarrow> bool" where
  "is_letter c =
     (let n = (of_char c :: nat) in (65 \<le> n \<and> n \<le> 90) \<or> (97 \<le> n \<and> n \<le> 122))"

text \<open>\<open>\s\<close>: tab, line feed, vertical tab, form feed, carriage return, space, no-break space.\<close>

definition is_space :: "char \<Rightarrow> bool" where
  "is_space c = ((of_char c :: nat) \<in> {9, 10, 11, 12, 13, 32, 160})"

definition canonicalize :: "char \<Rightarrow> char" where
  "canonicalize c =
     (let n = (of_char c :: nat) in if 97 \<le> n \<and> n \<le> 122 then char_of (n - 32) else c)"

fun atom_matches :: "atom \<Rightarrow> char \<Rightarrow> bool" where
  "atom_matches (Lit x) c = (canonicalize c = canonicalize x)"
| "atom_matches Space c = is_space c"
| "atom_matches Letter c = is_letter c"

text \<open>
  The quantifiers are greedy and backtrack: \<open>lengths q a s\<close> lists the numbers of
  characters a quantified atom may take at the front of \<open>s\<close>, the longest first, and
  \<open>try_lengths\<close> takes the first with which the rest of the expression matches.
\<close>

definition run :: "atom \<Rightarrow> string \<Rightarrow> nat" where
  "run a s = length (takeWhile (atom_matches a) s)"

fun lengths :: "quant \<Rightarrow> atom \<Rightarrow> string \<Rightarrow> nat list" where
  "lengths One a s = (if 1 \<le> run a s then [1] else [])"
| "lengths Opt a s = (if 1 \<le> run a s then [1, 0] else [0])"
| "lengths Star a s = rev [0..<Suc (run a s)]"
| "lengths Plus a s = rev [1..<Suc (run a s)]"

fun try_lengths :: "(nat \<Rightarrow> 'a option) \<Rightarrow> nat list \<Rightarrow> 'a option" where
  "try_lengths f [] = None"
| "try_lengths f (i # rest) = (case f i of Some r \<Rightarrow> Some r | None \<Rightarrow> try_lengths f rest)"

text \<open>
  \<open>match_here re s\<close> matches the expression at the front of \<open>s\<close> and returns the text
  matched and the texts of the capture groups, in order.
\<close>

fun match_here :: "node list \<Rightarrow> string \<Rightarrow> (string \<times> string list) option" where
  "match_here [] s = Some ([], [])"
| "match_here (Plain q a # ns) s =
     try_lengths (\<lambda>i. case match_here ns (drop i s) of
                        None \<Rightarrow> None
                      | Some (t, caps) \<Rightarrow> Some (take i s @ t, caps))
       (lengths q a s)"
| "match_here (Group q a # ns) s =
     try_lengths (\<lambda>i. case match_here ns (drop i s) of
                        None \<Rightarrow> None
                      | Some (t, caps) \<Rightarrow> Some (take i s @ t, take i s # caps))
       (lengths q a s)"

text \<open>
  \<open>re.exec(src)\<close> with \<open>lastIndex = 0\<close>: the match at the leftmost position that has
  one. The result is the array \<open>matched\<close>: the whole match at index 0, the groups at
  1, 2 and 3; \<open>None\<close> is \<open>null\<close>.
\<close>

fun exec :: "node list \<Rightarrow> string \<Rightarrow> string list option" where
  "exec re [] = (case match_here re [] of Some (t, caps) \<Rightarrow> Some (t # caps) | None \<Rightarrow> None)"
| "exec re (c # cs) =
     (case match_here re (c # cs) of Some (t, caps) \<Rightarrow> Some (t # caps) | None \<Rightarrow> exec re cs)"

definition lits :: "string \<Rightarrow> node list" where
  "lits s = map (\<lambda>c. Plain One (Lit c)) s"

text \<open>
  \<open>/function\s*[a-z]*\s*\(\s*([a-z]+)\s*\)\s*\{\s*return\s+([a-z]+)\.([a-z]+)/i\<close>
\<close>

definition matchFunction :: "node list" where
  "matchFunction =
     lits ''function'' @ [Plain Star Space, Plain Star Letter, Plain Star Space] @ lits ''(''
     @ [Plain Star Space, Group Plus Letter, Plain Star Space] @ lits '')''
     @ [Plain Star Space] @ lits ''{'' @ [Plain Star Space] @ lits ''return''
     @ [Plain Plus Space, Group Plus Letter] @ lits ''.'' @ [Group Plus Letter]"

text \<open>\<open>/\(?\s*([a-z]+)\s*\)?\s*\=\>\s*([a-z]+)\.([a-z]+)/i\<close>\<close>

definition matchLambda :: "node list" where
  "matchLambda =
     [Plain Opt (Lit CHR ''(''), Plain Star Space, Group Plus Letter, Plain Star Space,
      Plain Opt (Lit CHR '')''), Plain Star Space] @ lits ''=>''
     @ [Plain Star Space, Group Plus Letter] @ lits ''.'' @ [Group Plus Letter]"

text \<open>The \<open>Error\<close> a constructor throws, with its message.\<close>

datatype error = Error string

text \<open>
  A JavaScript function passed as a getter: what a call returns (\<open>fn_call\<close>) and its
  source text (\<open>toString\<close>), which \<open>ensureReducer\<close> reads.
\<close>

record ('s, 'p) Fn =
  fn_call :: "'s \<Rightarrow> 'p"
  toString :: string

text \<open>
  \<open>ensureReducer(context, fetch, reduce)\<close>. \<open>reduce\<close> is a function or \<open>undefined\<close>.
  The synthesized setter amends the owner state, an object, with one property.
\<close>

definition ensureReducer ::
  "string \<Rightarrow> ((string, 'p) object, 'p) Fn
     \<Rightarrow> ((string, 'p) object \<Rightarrow> 'p \<Rightarrow> (string, 'p) object) option
     \<Rightarrow> error + ((string, 'p) object \<Rightarrow> 'p \<Rightarrow> (string, 'p) object)" where
  "ensureReducer ctx fetch red =
     (case red of
        Some given \<Rightarrow> Inr given
      | None \<Rightarrow>
         (let src = toString fetch;
              matched = (case exec matchFunction src of
                           Some m \<Rightarrow> Some m
                         | None \<Rightarrow> exec matchLambda src)
          in case matched of
               None \<Rightarrow>
                 Inl (Error (''Cannot generate reducer for '' @ ctx @ '' ''
                       @ ''- too complex to parse, needs explicit reduce''))
             | Some m \<Rightarrow>
                 if m ! 1 \<noteq> m ! 2
                 then Inl (Error (''Cannot generate reducer for '' @ ctx @ '' ''
                       @ ''- inconsistent parameter usage: '' @ m ! 1 @ '', '' @ m ! 2))
                 else Inr (\<lambda>st v. amend st [(m ! 3, v)])))"

text \<open>
  \<open>collection(type, reducer, operations, get, set?)\<close>: the constructor fails when
  \<open>ensureReducer\<close> throws, and returns the definition otherwise. The owner state is an
  object here, as the synthesized setter needs; \<open>collection_reduce\<close> itself is defined
  for every owner.
\<close>

record ('s, 'k, 'p) CollectionDefinition = "('s, ('k, 'p Action) Update) ActionDefinition" +
  update_c :: "'k \<Rightarrow> 'p Action \<Rightarrow> ('k, 'p Action) Update Action"
  add_c :: "'k \<Rightarrow> ('k, 'p Action) Update Action"
  remove_c :: "'k \<Rightarrow> ('k, 'p Action) Update Action"

definition collection ::
  "string \<Rightarrow> ('i, 'p Action) MinimalReducer \<Rightarrow> ('c, 'k, 'i) CollectionOperations
     \<Rightarrow> ((string, 'c) object, 'c) Fn
     \<Rightarrow> ((string, 'c) object \<Rightarrow> 'c \<Rightarrow> (string, 'c) object) option
     \<Rightarrow> error + ((string, 'c) object, 'k, 'p) CollectionDefinition" where
  "collection ty r operations get set_opt =
     (case ensureReducer (''collection('' @ ty @ '')'') get set_opt of
        Inl e \<Rightarrow> Inl e
      | Inr ensuredSet \<Rightarrow>
          Inr \<lparr> def_type = ty,
                reduce = collection_reduce r operations (fn_call get) ensuredSet,
                update_c = update_a ty, add_c = add ty, remove_c = remove_a ty \<rparr>)"

text \<open>
  The cursor of a collection at a key: the plain cursor of \<open>items\<close>, and the member
  \<open>remove()\<close>, which calls the outer cursor with the remove action.
\<close>

record ('is, 'ia, 'os, 'oa, 'w) CollectionCursor =
  cursor :: "('is, 'ia, 'w) Cursor"
  remove_cursor :: "'w \<Rightarrow> 'w \<times> ('os, 'oa, 'w) Cursor"

definition collectionCursors ::
  "string \<Rightarrow> ('i, 'p Action) MinimalReducer \<Rightarrow> ('c, 'k, 'i) CollectionOperations \<Rightarrow> ('s \<Rightarrow> 'c)
     \<Rightarrow> ('s, ('k, 'p Action) Update Action, 'w) Cursor \<Rightarrow> 'k
     \<Rightarrow> ('i, 'p Action, 's, ('k, 'p Action) Update Action, 'w) CollectionCursor" where
  "collectionCursors ty r operations get outer k =
     \<lparr> cursor = items (\<lambda>st k. get_op operations (get st) k (empty r)) (update_a ty) outer k,
       remove_cursor = send outer (remove_a ty k) \<rparr>"

text \<open>\<open>reference(type, reducer, get, set?)\<close>, the collection's analogue without a key.\<close>

record ('s, 'a) ReferenceDefinition = "('s, 'a) ActionDefinition" +
  update_r :: "'a \<Rightarrow> 'a Action"

definition reference ::
  "string \<Rightarrow> ('i, 'a) MinimalReducer \<Rightarrow> ((string, 'i) object, 'i) Fn
     \<Rightarrow> ((string, 'i) object \<Rightarrow> 'i \<Rightarrow> (string, 'i) object) option
     \<Rightarrow> error + ((string, 'i) object, 'a) ReferenceDefinition" where
  "reference ty r get set_opt =
     (case ensureReducer (''reference('' @ ty @ '')'') get set_opt of
        Inl e \<Rightarrow> Inl e
      | Inr ensuredSet \<Rightarrow>
          Inr \<lparr> def_type = ty,
                reduce = (\<lambda>outerState innerAction.
                   ensuredSet outerState (call r (fn_call get outerState) innerAction)),
                update_r = (\<lambda>p. \<lparr> type = ty, payload = p \<rparr>) \<rparr>)"

section \<open>Dispatch in a reducer chain\<close>

lemma call_chain:
  "call (chain ty e h rest) s a = (if type a = ty then h s (payload a) else rest s a)"
  by (simp add: chain_def isAction_def)

lemma call_action_m:
  "call (action_m r d) s a = (if type a = def_type d then reduce d s (payload a) else call r s a)"
  by (simp add: action_m_def call_chain)

lemma call_reducer:
  "call (reducer e d) s a =
     (if type a = def_type d then reduce d s (payload a)
      else if s = Undefined then e else s)"
  by (simp add: reducer_def call_chain)

lemma call_registered_snoc:
  "call (registered e d (ds @ [x])) s a =
     (if type a = def_type x then reduce x s (payload a) else call (registered e d ds) s a)"
  by (simp add: registered_def call_action_m)

lemma call_registered_no_match:
  "\<forall>x \<in> set ds. type a \<noteq> def_type x \<Longrightarrow>
     call (registered e d ds) s a = call (reducer e d) s a"
proof (induction ds rule: rev_induct)
  case Nil
  show ?case by (simp add: registered_def)
next
  case (snoc x xs)
  then show ?case by (simp add: call_registered_snoc)
qed

lemma call_registered_last_match:
  assumes "d # ds = pre @ c # post"
    and "\<forall>x \<in> set post. type a \<noteq> def_type x"
    and "type a = def_type c"
  shows "call (registered e d ds) s a = reduce c s (payload a)"
  using assms
proof (induction post arbitrary: ds rule: rev_induct)
  case Nil
  show ?case
  proof (cases pre)
    case Nil
    with Nil.prems show ?thesis by (simp add: registered_def call_reducer)
  next
    case (Cons y ys)
    with Nil.prems have "ds = ys @ [c]" by simp
    with Nil.prems show ?thesis by (simp add: call_registered_snoc)
  qed
next
  case (snoc x xs)
  from snoc.prems(1) have "d # ds = (pre @ c # xs) @ [x]" by simp
  then obtain ds' where ds: "ds = ds' @ [x]" and ds': "d # ds' = pre @ c # xs"
    by (cases ds rule: rev_cases) auto
  from snoc.prems have "type a \<noteq> def_type x" by simp
  moreover from snoc.IH [OF ds'] snoc.prems
  have "call (registered e d ds') s a = reduce c s (payload a)" by simp
  ultimately show ?case by (simp add: ds call_registered_snoc)
qed

text \<open>
  C2. In a chain built by registering the cases \<open>d, d1, ..., dn\<close> in this order, an
  action whose tag is the tag of a registered case \<open>c\<close> is reduced by \<open>c\<close>'s reduce
  function applied to the state and the action's payload, whatever the other cases are,
  provided no case registered after \<open>c\<close> has the same tag; so of two cases with one tag
  the later registered is the one invoked.
\<close>

theorem chain_dispatches_to_latest_case:
  assumes "d # ds = pre @ c # post"
    and "\<forall>x \<in> set post. def_type x \<noteq> def_type c"
    and "type a = def_type c"
  shows "call (registered e d ds) s a = reduce c s (payload a)"
proof -
  from assms(2,3) have "\<forall>x \<in> set post. type a \<noteq> def_type x" by auto
  with assms(1,3) show ?thesis by (simp add: call_registered_last_match)
qed

theorem chain_dispatches_to_latest_case_witness:
  "call (registered (Defined (0::int))
       (action ''INCR'' (\<lambda>s (p::int). case s of Defined n \<Rightarrow> Defined (n + p) | Undefined \<Rightarrow> Undefined))
       [action ''SET'' (\<lambda>s p. Defined p), action ''INCR'' (\<lambda>s p. Defined 7),
        action ''OTHER'' (\<lambda>s p. Undefined)])
     (Defined 1) \<lparr> type = ''INCR'', payload = 5 \<rparr> = Defined 7"
proof -
  let ?d = "action ''INCR'' (\<lambda>s (p::int). case s of Defined n \<Rightarrow> Defined (n + p) | Undefined \<Rightarrow> Undefined)
              :: (int js, int) ActionDefinition"
  let ?c = "action ''INCR'' (\<lambda>s p. Defined 7) :: (int js, int) ActionDefinition"
  let ?o = "action ''OTHER'' (\<lambda>s p. Undefined) :: (int js, int) ActionDefinition"
  let ?s = "action ''SET'' (\<lambda>s p. Defined p) :: (int js, int) ActionDefinition"
  have "call (registered (Defined 0) ?d [?s, ?c, ?o]) (Defined 1) \<lparr> type = ''INCR'', payload = 5 \<rparr>
          = reduce ?c (Defined 1) (payload \<lparr> type = ''INCR'', payload = 5::int \<rparr>)"
    by (rule chain_dispatches_to_latest_case [where pre = "[?d, ?s]" and post = "[?o]"])
       (simp_all add: action_def)
  then show ?thesis by (simp add: action_def)
qed

text \<open>
  C4. An action whose tag matches no registered case falls through to the pass-through
  case: a defined state is returned unchanged, and for the state \<open>undefined\<close> the seed
  \<open>empty\<close> of the chain is returned. No branch of the chain raises an error.
\<close>

theorem chain_unhandled_action_is_noop:
  assumes "\<forall>x \<in> set (d # ds). def_type x \<noteq> type a"
  shows "call (registered e d ds) (Defined s) a = Defined s
       \<and> call (registered e d ds) Undefined a = e"
proof -
  from assms have "type a \<noteq> def_type d" and "\<forall>x \<in> set ds. type a \<noteq> def_type x"
    by auto
  then show ?thesis by (simp add: call_registered_no_match call_reducer)
qed

theorem chain_unhandled_action_is_noop_witness:
  "call (registered (Defined (0::int))
       (action ''INCR'' (\<lambda>s (p::int). Defined p)) [action ''SET'' (\<lambda>s p. Defined p)])
     (Defined 3) \<lparr> type = ''NOPE'', payload = 5 \<rparr> = Defined 3
   \<and> call (registered (Defined (0::int))
       (action ''INCR'' (\<lambda>s (p::int). Defined p)) [action ''SET'' (\<lambda>s p. Defined p)])
     Undefined \<lparr> type = ''NOPE'', payload = 5 \<rparr> = Defined 0"
  by (rule chain_unhandled_action_is_noop) (simp add: action_def)

section \<open>Cursors\<close>

text \<open>
  C3. Calling a cursor made by \<open>snapshot\<close> with an action \<open>a\<close>, when the store is
  \<open>w\<close>, leaves the store as \<open>store.dispatch(a)\<close> leaves it and returns the snapshot of
  the store taken then; the state of the returned cursor is what \<open>getState()\<close> returns
  right after the dispatch. The cursor may have been made at any earlier store \<open>w0\<close>.
\<close>

theorem snapshot_dispatch_is_store_dispatch:
  "send (snapshot store w0) a w = (dispatch store a w, snapshot store (dispatch store a w))
   \<and> state (snd (send (snapshot store w0) a w)) = getState store (dispatch store a w)"
  by (simp add: Let_def)

theorem snapshot_dispatch_is_store_dispatch_witness:
  "state (snd (send (snapshot \<lparr> getState = (\<lambda>w::int. w), dispatch = (\<lambda>a w. w + a) \<rparr> 0) 5 2)) = 7
   \<and> fst (send (snapshot \<lparr> getState = (\<lambda>w::int. w), dispatch = (\<lambda>a w. w + a) \<rparr> 0) 5 2) = 7"
  using snapshot_dispatch_is_store_dispatch
    [of "\<lparr> getState = (\<lambda>w::int. w), dispatch = (\<lambda>a w. w + a) \<rparr>" 0 5 2]
  by simp

text \<open>
  C5. The inner cursor \<open>items(fetch, rewrap)(outer, key)\<close> has the state
  \<open>fetch(outer.state, key)\<close>; calling it with an inner action calls the outer cursor
  with \<open>rewrap(key, a)\<close> and returns the inner cursor derived at the same key from the
  cursor the outer call returned. The inner cursor is a function of the outer cursor and
  the key alone. Over a snapshot, the new inner state is fetched from the store's state
  after the dispatch of the rewrapped action.
\<close>

theorem items_dispatch_via_outer:
  "state (items fetch rewrap outer k) = fetch (state outer) k
   \<and> send (items fetch rewrap outer k) a w =
       (fst (send outer (rewrap k a) w),
        items fetch rewrap (snd (send outer (rewrap k a) w)) k)
   \<and> state (snd (send (items fetch rewrap (snapshot store w0) k) a w)) =
       fetch (getState store (dispatch store (rewrap k a) w)) k"
  by (simp add: split_beta Let_def)

theorem items_dispatch_via_outer_witness:
  "state (items (\<lambda>s k. s + k) (\<lambda>k a. k * a)
       (snapshot \<lparr> getState = (\<lambda>w::int. w), dispatch = (\<lambda>a w. w + a) \<rparr> 1) 3) = 4
   \<and> state (snd (send (items (\<lambda>s k. s + k) (\<lambda>k a. k * a)
       (snapshot \<lparr> getState = (\<lambda>w::int. w), dispatch = (\<lambda>a w. w + a) \<rparr> 1) 3) 5 2)) = 20"
  using items_dispatch_via_outer
    [of "\<lambda>s k. s + k" "\<lambda>k a. k * a"
        "snapshot \<lparr> getState = (\<lambda>w::int. w), dispatch = (\<lambda>a w. w + a) \<rparr> 1" 3 5 2
        "\<lparr> getState = (\<lambda>w::int. w), dispatch = (\<lambda>a w. w + a) \<rparr>" 1]
  by simp

section \<open>The case-reduce of a collection\<close>


section \<open>Laws of the collection operations\<close>

lemma update_fresh: "k \<notin> fst ` set al \<Longrightarrow> AList.update k v al = al @ [(k, v)]"
  by (induction al) auto

lemma assign_source_map_of: "map_of (assign_source t src) = map_of t ++ map_of (rev src)"
  apply (induction t src rule: assign_source.induct)
   apply (auto simp: update_conv' map_add_def fun_eq_iff split: option.splits)
  done

lemma assign_source_distinct: "distinct (map fst t) \<Longrightarrow> distinct (map fst (assign_source t src))"
  by (induction t src rule: assign_source.induct) (auto simp: distinct_update)

lemma assign_source_fresh:
  "distinct (map fst src) \<Longrightarrow> fst ` set src \<inter> fst ` set t = {} \<Longrightarrow> assign_source t src = t @ src"
  apply (induction t src rule: assign_source.induct)
   apply (auto simp: update_fresh)
  done

lemma assign_copy: "distinct (map fst xs) \<Longrightarrow> assign [] [xs] = xs"
  by (simp add: assign_source_fresh)


lemma assign_source_Nil_distinct: "distinct (map fst (assign_source [] src))"
  by (rule assign_source_distinct) simp

lemma assign_source_Nil_id: "distinct (map fst xs) \<Longrightarrow> assign_source [] xs = xs"
  by (simp add: assign_source_fresh)



lemma builtIn_remove: "remove_op builtInOperations c k e = AList.delete k (assign_source [] c)"
  by (simp add: builtInOperations_def)

lemma builtIn_remove_idem:
  "remove_op builtInOperations (remove_op builtInOperations c k e) k e' = remove_op builtInOperations c k e"
  by (simp add: builtIn_remove assign_source_Nil_id distinct_delete assign_source_Nil_distinct delete_idem)



lemma immutable_remove_idem:
  "remove_op immutableMapOperations (remove_op immutableMapOperations c k e) k e' = remove_op immutableMapOperations c k e"
  by (simp add: immutableMapOperations_def)







lemma array_remove: "remove_op arrayOperations c k e = assign_index c k e"
  by (simp add: arrayOperations_def Let_def slice_def)



lemma array_remove_idem:
  "remove_op arrayOperations (remove_op arrayOperations c k e) k e = remove_op arrayOperations c k e"
proof (cases "k < length c")
  case True
  then show ?thesis by (simp add: array_remove assign_index_def)
next
  case False
  let ?ys = "c @ replicate (k - length c) Undefined"
  from False have len: "length ?ys = k" by simp
  have "(?ys @ [e])[length ?ys := e] = ?ys @ [e]" by (rule list_update_length)
  with len have "(?ys @ [e])[k := e] = ?ys @ [e]" by simp
  with False show ?thesis by (simp add: array_remove assign_index_def)
qed



lemma collection_reduce_remove:
  "collection_reduce r ops g st s (payload (remove_a ty k)) = st s (remove_op ops (g s) k (empty r))"
  by (simp add: collection_reduce_def remove_a_def Let_def)



lemma remove_twice_generic:
  assumes "\<And>s c. g (st s c) = c"
    and "\<And>c. remove_op ops (remove_op ops c k (empty r)) k (empty r) = remove_op ops c k (empty r)"
  shows "g (collection_reduce r ops g st (collection_reduce r ops g st s (payload (remove_a ty k))) (payload (remove_a ty k)))
       = g (collection_reduce r ops g st s (payload (remove_a ty k)))"
  by (simp add: collection_reduce_remove assms)


text \<open>
  With an explicit \<open>set\<close>, \<open>ensureReducer\<close> returns it and construction succeeds: the
  case-reduce of the collection is \<open>collection_reduce\<close> with that \<open>set\<close>.
\<close>

lemma collection_with_set:
  "collection ty r ops g (Some st) =
     Inr \<lparr> def_type = ty, reduce = collection_reduce r ops (fn_call g) st,
           update_c = update_a ty, add_c = add ty, remove_c = remove_a ty \<rparr>"
  by (simp add: collection_def ensureReducer_def)

text \<open>
  The synthesized setter \<open>(state, value) => amend(state, {[f]: value})\<close> and the getter
  \<open>s => s.f\<close> satisfy the two conditions on the owner that C6 and C9 use.
\<close>

lemma amend_put_get: "get_prop f (amend st [(f, c)]) = c"
  by (simp add: get_prop_def amend_def update_conv')

lemma amend_put_put: "amend (amend st [(f, c)]) [(f, c')] = amend st [(f, c')]"
  by (simp add: amend_def assign_source_Nil_id distinct_update assign_source_Nil_distinct)

section \<open>Removing and materialising items\<close>

text \<open>
  C9. For the plain-object, the immutable-map and the array operations, reducing the
  payload of \<open>remove(k)\<close> twice leaves the owner with the same collection as reducing it
  once, for every owner state and key, the key being present or not; the owner's \<open>set\<close>
  is assumed to store the collection \<open>get\<close> reads. The three \<open>remove\<close> functions are
  total: none has a branch that raises.
\<close>

theorem remove_twice_is_remove_once:
  assumes "\<And>s c. g1 (st1 s c) = c" and "\<And>s c. g2 (st2 s c) = c" and "\<And>s c. g3 (st3 s c) = c"
  shows "g1 (collection_reduce r1 builtInOperations g1 st1
            (collection_reduce r1 builtInOperations g1 st1 s1 (payload (remove_a ty k1)))
            (payload (remove_a ty k1)))
         = g1 (collection_reduce r1 builtInOperations g1 st1 s1 (payload (remove_a ty k1)))
       \<and> g2 (collection_reduce r2 immutableMapOperations g2 st2
            (collection_reduce r2 immutableMapOperations g2 st2 s2 (payload (remove_a ty k2)))
            (payload (remove_a ty k2)))
         = g2 (collection_reduce r2 immutableMapOperations g2 st2 s2 (payload (remove_a ty k2)))
       \<and> g3 (collection_reduce r3 arrayOperations g3 st3
            (collection_reduce r3 arrayOperations g3 st3 s3 (payload (remove_a ty k3)))
            (payload (remove_a ty k3)))
         = g3 (collection_reduce r3 arrayOperations g3 st3 s3 (payload (remove_a ty k3)))"
proof (intro conjI)
  show "g1 (collection_reduce r1 builtInOperations g1 st1
            (collection_reduce r1 builtInOperations g1 st1 s1 (payload (remove_a ty k1)))
            (payload (remove_a ty k1)))
         = g1 (collection_reduce r1 builtInOperations g1 st1 s1 (payload (remove_a ty k1)))"
    using assms(1) by (rule remove_twice_generic) (rule builtIn_remove_idem)
  show "g2 (collection_reduce r2 immutableMapOperations g2 st2
            (collection_reduce r2 immutableMapOperations g2 st2 s2 (payload (remove_a ty k2)))
            (payload (remove_a ty k2)))
         = g2 (collection_reduce r2 immutableMapOperations g2 st2 s2 (payload (remove_a ty k2)))"
    using assms(2) by (rule remove_twice_generic) (rule immutable_remove_idem)
  show "g3 (collection_reduce r3 arrayOperations g3 st3
            (collection_reduce r3 arrayOperations g3 st3 s3 (payload (remove_a ty k3)))
            (payload (remove_a ty k3)))
         = g3 (collection_reduce r3 arrayOperations g3 st3 s3 (payload (remove_a ty k3)))"
    using assms(3) by (rule remove_twice_generic) (rule array_remove_idem)
qed

theorem remove_twice_is_remove_once_witness:
  "collection_reduce \<lparr> call = (\<lambda>i a. i + payload a), empty = 0::int \<rparr> builtInOperations (\<lambda>s. s) (\<lambda>s c. c)
     (collection_reduce \<lparr> call = (\<lambda>i a. i + payload a), empty = 0::int \<rparr> builtInOperations (\<lambda>s. s) (\<lambda>s c. c)
        [(''a'', 1), (''b'', 2)] (payload (remove_a ''ITEMS'' ''a'')))
     (payload (remove_a ''ITEMS'' ''a'')) = [(''b'', 2)]
   \<and> collection_reduce \<lparr> call = (\<lambda>i a. i + payload a), empty = 0::int \<rparr> immutableMapOperations (\<lambda>s. s) (\<lambda>s c. c)
     (collection_reduce \<lparr> call = (\<lambda>i a. i + payload a), empty = 0::int \<rparr> immutableMapOperations (\<lambda>s. s) (\<lambda>s c. c)
        [3::nat \<mapsto> 1] (payload (remove_a ''ITEMS'' 3)))
     (payload (remove_a ''ITEMS'' 3)) = Map.empty
   \<and> collection_reduce \<lparr> call = (\<lambda>i a. Defined (payload a)), empty = Defined (0::int) \<rparr> arrayOperations (\<lambda>s. s) (\<lambda>s c. c)
     (collection_reduce \<lparr> call = (\<lambda>i a. Defined (payload a)), empty = Defined (0::int) \<rparr> arrayOperations (\<lambda>s. s) (\<lambda>s c. c)
        [Defined 1] (payload (remove_a ''ITEMS'' 2)))
     (payload (remove_a ''ITEMS'' 2)) = [Defined 1, Undefined, Defined 0]"
  using remove_twice_is_remove_once [of "\<lambda>s. s" "\<lambda>s c. c" "\<lambda>s. s" "\<lambda>s c. c" "\<lambda>s. s" "\<lambda>s c. c"
      "\<lparr> call = (\<lambda>i a. i + payload a), empty = 0::int \<rparr>" "[(''a'', 1), (''b'', 2)]" "''ITEMS''" "''a''"
      "\<lparr> call = (\<lambda>i a. i + payload a), empty = 0::int \<rparr>" "[3::nat \<mapsto> 1]" "3"
      "\<lparr> call = (\<lambda>i a. Defined (payload a)), empty = Defined (0::int) \<rparr>" "[Defined 1]" "2"]
  by (simp add: collection_reduce_remove builtIn_remove immutableMapOperations_def array_remove assign_index_def)








section \<open>Matching a getter's source\<close>


























lemma exec_start: "match_here re (c # cs) = Some (t, caps) \<Longrightarrow> exec re (c # cs) = Some (t # caps)"
  by simp




lemma ensureReducer_explicit: "ensureReducer ctx g (Some st) = Inr st"
  by (simp add: ensureReducer_def)


lemma ensureReducer_function_match:
  "exec matchFunction (toString g) = Some m \<Longrightarrow>
   ensureReducer ctx g None =
     (if m ! 1 \<noteq> m ! 2
      then Inl (Error (''Cannot generate reducer for '' @ ctx @ '' - inconsistent parameter usage: ''
             @ m ! 1 @ '', '' @ m ! 2))
      else Inr (\<lambda>st v. amend st [(m ! 3, v)]))"
  by (simp add: ensureReducer_def)

lemma ensureReducer_lambda_match:
  "exec matchFunction (toString g) = None \<Longrightarrow> exec matchLambda (toString g) = Some m \<Longrightarrow>
   ensureReducer ctx g None =
     (if m ! 1 \<noteq> m ! 2
      then Inl (Error (''Cannot generate reducer for '' @ ctx @ '' - inconsistent parameter usage: ''
             @ m ! 1 @ '', '' @ m ! 2))
      else Inr (\<lambda>st v. amend st [(m ! 3, v)]))"
  by (simp add: ensureReducer_def)

lemma amend_field: "distinct (map fst st) \<Longrightarrow> amend st [(f, v)] = AList.update f v st"
  by (simp add: amend_def assign_source_Nil_id)


section \<open>Synthesis of the setter\<close>

lemma exec_two_level_function: "exec matchFunction ''s => s.a.b'' = None"
  by code_simp

lemma exec_two_level_lambda:
  "exec matchLambda ''s => s.a.b'' = Some [''s => s.a'', ''s'', ''s'', ''a'']"
  by code_simp

lemma exec_two_level_function_form:
  "exec matchFunction ''function (s) { return s.a.b; }''
     = Some [''function (s) { return s.a'', ''s'', ''s'', ''a'']"
  by code_simp





text \<open>
  C7. Given the getter source \<open>s => s.a.b\<close> (or its \<open>function\<close> form) and no setter,
  \<open>ensureReducer\<close> does not throw: the expressions are not anchored at the end, so
  \<open>exec\<close> matches the prefix \<open>s => s.a\<close> with both names \<open>s\<close>, and the result is
  the setter of the field \<open>a\<close>. \<open>collection\<close> and \<open>reference\<close> then return a
  definition. The lemmas \<open>ensureReducer_no_match\<close>, \<open>ensureReducer_function_match\<close> and
  \<open>ensureReducer_lambda_match\<close> above give the cases in which it does throw: no match of
  either expression, or a match whose parameter and object names differ.
\<close>

theorem two_level_getter_is_accepted:
  "\<not> isl (ensureReducer ''collection(ITEMS)'' \<lparr> fn_call = g1, toString = ''s => s.a.b'' \<rparr> None)
   \<and> projr (ensureReducer ''collection(ITEMS)'' \<lparr> fn_call = g1, toString = ''s => s.a.b'' \<rparr> None)
         [(''a'', Defined (1::int)), (''c'', Defined 2)] (Defined 5) = [(''a'', Defined 5), (''c'', Defined 2)]
   \<and> \<not> isl (collection ''ITEMS'' r2 ops2 \<lparr> fn_call = g2, toString = ''s => s.a.b'' \<rparr> None)
   \<and> \<not> isl (reference ''ITEM'' r3
         \<lparr> fn_call = g3, toString = ''function (s) { return s.a.b; }'' \<rparr> None)"
proof -
  have a: "ensureReducer ctx \<lparr> fn_call = g, toString = ''s => s.a.b'' \<rparr> None
             = Inr (\<lambda>st v. amend st [(''a'', v)])" for ctx and g :: "(string, 'x) object \<Rightarrow> 'x"
    using ensureReducer_lambda_match
      [of "\<lparr> fn_call = g, toString = ''s => s.a.b'' \<rparr>"
          "[''s => s.a'', ''s'', ''s'', ''a'']" ctx]
    by (simp add: exec_two_level_function exec_two_level_lambda del: exec.simps)
  have b: "ensureReducer ctx \<lparr> fn_call = g, toString = ''function (s) { return s.a.b; }'' \<rparr> None
             = Inr (\<lambda>st v. amend st [(''a'', v)])" for ctx and g :: "(string, 'x) object \<Rightarrow> 'x"
    using ensureReducer_function_match
      [of "\<lparr> fn_call = g, toString = ''function (s) { return s.a.b; }'' \<rparr>"
          "[''function (s) { return s.a'', ''s'', ''s'', ''a'']" ctx]
    by (simp add: exec_two_level_function_form del: exec.simps)
  show ?thesis
    by (simp add: a b collection_def reference_def amend_field)
qed




end
